theory Spec2Isabelle
  imports Complex_Main "HOL-Library.Sublist"
begin

section \<open>Smart Wearable Platform API: the aggregation layer of main.py\<close>

text \<open>
  The service answers dashboard queries over five document collections (driver, device,
  healthrecord, sleeprecord, event). The documents are the Pydantic classes of
  schemas.py, modelled as records whose field types are the declared ones
  (\<open>Optional[T]\<close> is \<open>T option\<close>). On such documents a \<open>d.get(k, default)\<close> of a
  required field is the field itself; the defaults of main.py only matter where a whole
  document is absent from a join, and there they are written out.
\<close>

subsection \<open>Python strings\<close>

text \<open>
  \<open>str.lower()\<close> on the ASCII letters; every other character is left as it is.
  \<open>a in b\<close> on strings is \<^const>\<open>sublist\<close>: \<open>b = ps @ a @ ss\<close> for some \<open>ps\<close>, \<open>ss\<close>.
\<close>

definition lower_char :: "char \<Rightarrow> char" where
  "lower_char c =
     (case map_of (zip ''ABCDEFGHIJKLMNOPQRSTUVWXYZ'' ''abcdefghijklmnopqrstuvwxyz'') c of
        None \<Rightarrow> c
      | Some l \<Rightarrow> l)"

definition lower :: "string \<Rightarrow> string" where
  "lower s = map lower_char s"

text \<open>\<open>x or ""\<close> on an \<open>Optional[str]\<close>.\<close>

fun or_empty_str :: "string option \<Rightarrow> string" where
  "or_empty_str None = []"
| "or_empty_str (Some s) = s"

subsection \<open>Data model (schemas.py)\<close>

text \<open>
  A \<open>datetime\<close> is a point on the microsecond grid: the number of microseconds since
  the epoch. A \<open>timedelta\<close> is a number of microseconds.
\<close>

type_synonym datetime = int

definition timedelta :: "int \<Rightarrow> int \<Rightarrow> int" where
  "timedelta hours minutes = (hours * 3600 + minutes * 60) * 1000000"

text \<open>
  The values of a location dictionary \<open>{lat: float, lng: float, address: str}\<close>. The
  service only passes them on; a float is denoted by the number its literal is written as.
\<close>

datatype val = VFloat real | VStr string

text \<open>
  A \<open>dict\<close> with string keys, as an association list read with \<^const>\<open>map_of\<close>.
\<close>

type_synonym dict = "(string \<times> val) list"

text \<open>\<open>x or {}\<close> on an \<open>Optional[dict]\<close>.\<close>

fun or_empty_dict :: "dict option \<Rightarrow> dict" where
  "or_empty_dict None = []"
| "or_empty_dict (Some d) = d"

record Driver =
  name :: string
  employee_id :: string
  phone :: "string option"
  status :: string

record Device =
  device_id :: string
  driver_id :: "string option"
  driver_name :: "string option"
  battery :: int
  is_online :: bool
  last_location :: "dict option"

record HealthRecord =
  driver_id :: string
  driver_name :: string
  device_id :: string
  timestamp :: datetime
  heart_rate :: int
  bp_systolic :: int
  bp_diastolic :: int
  temperature :: real
  calories :: int
  steps :: int
  duration_minutes :: int
  kilometers :: real

record SleepSegment =
  seg_start :: datetime
  seg_end :: datetime
  seg_type :: string

record SleepRecord =
  driver_id :: string
  driver_name :: string
  device_id :: string
  date :: string
  score :: int
  duration_minutes :: int
  segments :: "SleepSegment list"

record Event =
  driver_id :: string
  driver_name :: string
  device_id :: string
  timestamp :: datetime
  status_event :: string
  location :: "dict option"

subsection \<open>The record store (database.py)\<close>

text \<open>
  One list of documents per collection, in the order in which the store returns them.
  The fields are named as \<open>to_collection\<close> names the collections.
\<close>

record database =
  driver :: "Driver list"
  device :: "Device list"
  healthrecord :: "HealthRecord list"
  sleeprecord :: "SleepRecord list"
  event :: "Event list"

definition empty_database :: database where
  "empty_database =
     \<lparr>driver = [], device = [], healthrecord = [], sleeprecord = [], event = []\<rparr>"

definition to_collection :: "string \<Rightarrow> string" where
  "to_collection nm = lower nm"

text \<open>
  Modelled from the spec: \<open>get_documents\<close> and \<open>create_document\<close> of database.py, which
  is not among the sources. The spec (4.1): \<open>query(collection_name, filter=None)\<close>
  returns the sequence of records, where filter, if given, is a mapping of field to
  exact-match value, AND-combined across fields; \<open>create(collection_name, record)\<close>
  stores the record. A filter is the list of its entries, each entry \<open>{field: v}\<close> being
  the test \<open>\<lambda>d. field d = v\<close>.
\<close>

type_synonym 'a filter_dict = "('a \<Rightarrow> bool) list"

fun get_documents :: "'a list \<Rightarrow> 'a filter_dict option \<Rightarrow> 'a list" where
  "get_documents coll None = coll"
| "get_documents coll (Some filter_dict) = filter (\<lambda>d. list_all (\<lambda>f. f d) filter_dict) coll"

definition create_document :: "'a list \<Rightarrow> 'a \<Rightarrow> 'a list" where
  "create_document coll data = coll @ [data]"

subsection \<open>Seeding (POST /seed)\<close>

definition d1 :: Driver where
  "d1 = \<lparr>name = ''Budi Santoso'', employee_id = ''DRV001'',
          phone = Some ''081234567890'', status = ''active''\<rparr>"

definition d2 :: Driver where
  "d2 = \<lparr>name = ''Siti Aminah'', employee_id = ''DRV002'',
          phone = Some ''081298765432'', status = ''active''\<rparr>"

definition dev1 :: Device where
  "dev1 = \<lparr>Device.device_id = ''DEV-1001'', Device.driver_id = None,
            Device.driver_name = Some ''Budi Santoso'', battery = 87, is_online = True,
            last_location = Some [(''lat'', VFloat (-6.2)), (''lng'', VFloat 106.82),
                                  (''address'', VStr ''Jakarta'')]\<rparr>"

definition dev2 :: Device where
  "dev2 = \<lparr>Device.device_id = ''DEV-1002'', Device.driver_id = None,
            Device.driver_name = Some ''Siti Aminah'', battery = 22, is_online = False,
            last_location = Some [(''lat'', VFloat (-6.21)), (''lng'', VFloat 106.85),
                                  (''address'', VStr ''Jakarta'')]\<rparr>"

definition hr1 :: "datetime \<Rightarrow> HealthRecord" where
  "hr1 today =
     \<lparr>HealthRecord.driver_id = ''DRV001'', HealthRecord.driver_name = ''Budi Santoso'',
      HealthRecord.device_id = ''DEV-1001'', HealthRecord.timestamp = today,
      heart_rate = 78, bp_systolic = 145, bp_diastolic = 95, temperature = 36.8,
      calories = 1200, steps = 9500, HealthRecord.duration_minutes = 75,
      kilometers = 6.8\<rparr>"

definition hr2 :: "datetime \<Rightarrow> HealthRecord" where
  "hr2 today =
     \<lparr>HealthRecord.driver_id = ''DRV002'', HealthRecord.driver_name = ''Siti Aminah'',
      HealthRecord.device_id = ''DEV-1002'', HealthRecord.timestamp = today,
      heart_rate = 82, bp_systolic = 118, bp_diastolic = 78, temperature = 36.6,
      calories = 980, steps = 7200, HealthRecord.duration_minutes = 60,
      kilometers = 4.9\<rparr>"

definition s1 :: "(datetime \<Rightarrow> string) \<Rightarrow> datetime \<Rightarrow> SleepRecord" where
  "s1 strftime_ymd today =
     \<lparr>SleepRecord.driver_id = ''DRV001'', SleepRecord.driver_name = ''Budi Santoso'',
      SleepRecord.device_id = ''DEV-1001'', date = strftime_ymd today,
      score = 58, SleepRecord.duration_minutes = 320,
      segments =
        [\<lparr>seg_start = today - timedelta 7 0, seg_end = today - timedelta 6 45,
          seg_type = ''light''\<rparr>,
         \<lparr>seg_start = today - timedelta 6 45, seg_end = today - timedelta 5 0,
          seg_type = ''deep''\<rparr>,
         \<lparr>seg_start = today - timedelta 5 0, seg_end = today - timedelta 4 30,
          seg_type = ''rem''\<rparr>,
         \<lparr>seg_start = today - timedelta 4 30, seg_end = today - timedelta 4 15,
          seg_type = ''awake''\<rparr>]\<rparr>"

definition s2 :: "(datetime \<Rightarrow> string) \<Rightarrow> datetime \<Rightarrow> SleepRecord" where
  "s2 strftime_ymd today =
     \<lparr>SleepRecord.driver_id = ''DRV002'', SleepRecord.driver_name = ''Siti Aminah'',
      SleepRecord.device_id = ''DEV-1002'', date = strftime_ymd today,
      score = 82, SleepRecord.duration_minutes = 420,
      segments =
        [\<lparr>seg_start = today - timedelta 8 0, seg_end = today - timedelta 6 0,
          seg_type = ''deep''\<rparr>,
         \<lparr>seg_start = today - timedelta 6 0, seg_end = today - timedelta 5 0,
          seg_type = ''light''\<rparr>,
         \<lparr>seg_start = today - timedelta 5 0, seg_end = today - timedelta 4 0,
          seg_type = ''rem''\<rparr>]\<rparr>"

definition e1 :: "datetime \<Rightarrow> Event" where
  "e1 today =
     \<lparr>Event.driver_id = ''DRV001'', Event.driver_name = ''Budi Santoso'',
      Event.device_id = ''DEV-1001'', Event.timestamp = today,
      status_event = ''Low Battery'',
      location = Some [(''lat'', VFloat (-6.2)), (''lng'', VFloat 106.82),
                       (''address'', VStr ''Jakarta'')]\<rparr>"

definition e2 :: "datetime \<Rightarrow> Event" where
  "e2 today =
     \<lparr>Event.driver_id = ''DRV002'', Event.driver_name = ''Siti Aminah'',
      Event.device_id = ''DEV-1002'', Event.timestamp = today,
      status_event = ''SOS'',
      location = Some [(''lat'', VFloat (-6.21)), (''lng'', VFloat 106.85),
                       (''address'', VStr ''Jakarta'')]\<rparr>"

text \<open>
  \<open>seed()\<close>, one step per collection in the order of the source. Each step reads the
  collection and inserts its two documents only when the collection is empty. The
  arguments are the reading \<open>today\<close> of \<open>datetime.utcnow()\<close> and the formatting
  \<open>strftime("%Y-%m-%d")\<close>; the result is the store after the call (the response body is
  the constant \<open>{"status": "ok"}\<close>).
\<close>

definition seed_driver :: "database \<Rightarrow> database" where
  "seed_driver db =
     (if length (get_documents (driver db) None) = 0
      then db\<lparr>driver := create_document (create_document (driver db) d1) d2\<rparr>
      else db)"

definition seed_device :: "database \<Rightarrow> database" where
  "seed_device db =
     (if length (get_documents (device db) None) = 0
      then db\<lparr>device := create_document (create_document (device db) dev1) dev2\<rparr>
      else db)"

definition seed_healthrecord :: "datetime \<Rightarrow> database \<Rightarrow> database" where
  "seed_healthrecord today db =
     (if length (get_documents (healthrecord db) None) = 0
      then db\<lparr>healthrecord :=
                create_document (create_document (healthrecord db) (hr1 today)) (hr2 today)\<rparr>
      else db)"

definition seed_sleeprecord :: "(datetime \<Rightarrow> string) \<Rightarrow> datetime \<Rightarrow> database \<Rightarrow> database" where
  "seed_sleeprecord strftime_ymd today db =
     (if length (get_documents (sleeprecord db) None) = 0
      then db\<lparr>sleeprecord :=
                create_document (create_document (sleeprecord db) (s1 strftime_ymd today))
                  (s2 strftime_ymd today)\<rparr>
      else db)"

definition seed_event :: "datetime \<Rightarrow> database \<Rightarrow> database" where
  "seed_event today db =
     (if length (get_documents (event db) None) = 0
      then db\<lparr>event := create_document (create_document (event db) (e1 today)) (e2 today)\<rparr>
      else db)"

definition seed :: "(datetime \<Rightarrow> string) \<Rightarrow> datetime \<Rightarrow> database \<Rightarrow> database" where
  "seed strftime_ymd today db =
     seed_event today
       (seed_sleeprecord strftime_ymd today
          (seed_healthrecord today (seed_device (seed_driver db))))"

subsection \<open>Dashboard summary (GET /dashboard/summary)\<close>

record DashboardSummary =
  high_bp_count :: int
  low_sleep_score_count :: int
  under_sleep_duration_count :: int
  online_devices :: int
  offline_devices :: int

text \<open>
  The four thresholds are the query parameters (defaults 140, 90, 60, 360); \<open>now\<close> is
  the reading of \<open>datetime.utcnow()\<close>.
\<close>

definition dashboard_summary ::
  "(datetime \<Rightarrow> string) \<Rightarrow> datetime \<Rightarrow> int \<Rightarrow> int \<Rightarrow> int \<Rightarrow> int \<Rightarrow> database \<Rightarrow> DashboardSummary" where
  "dashboard_summary strftime_ymd now bp_sys_threshold bp_dia_threshold
       sleep_score_threshold sleep_duration_threshold db =
     (let today = strftime_ymd now;
          health = get_documents (healthrecord db) None;
          sleep = get_documents (sleeprecord db) (Some [\<lambda>s. date s = today]);
          devices = get_documents (device db) None;
          high_bp = filter (\<lambda>h. bp_systolic h > bp_sys_threshold
                                \<or> bp_diastolic h > bp_dia_threshold) health;
          low_sleep_score = filter (\<lambda>s. score s < sleep_score_threshold) sleep;
          under_sleep =
            filter (\<lambda>s. SleepRecord.duration_minutes s < sleep_duration_threshold) sleep;
          online = filter (\<lambda>d. is_online d) devices;
          offline = filter (\<lambda>d. \<not> is_online d) devices
      in \<lparr>high_bp_count = int (length high_bp),
          low_sleep_score_count = int (length low_sleep_score),
          under_sleep_duration_count = int (length under_sleep),
          online_devices = int (length online),
          offline_devices = int (length offline)\<rparr>)"

subsection \<open>Driver readiness (GET /dashboard/readiness)\<close>

record ReadinessRow =
  datetime :: datetime
  driver_name :: string
  device_id :: string
  last_sleep_score :: "int option"
  last_bp_systolic :: int
  last_bp_diastolic :: int
  status :: string

text \<open>
  The loop \<open>for s in sleep: sleep_by_driver[s["driver_id"]] = s\<close>: a later record
  overwrites an earlier one of the same driver.
\<close>

definition sleep_by_driver :: "SleepRecord list \<Rightarrow> (string \<rightharpoonup> SleepRecord)" where
  "sleep_by_driver sleep = foldl (\<lambda>m s. m(SleepRecord.driver_id s \<mapsto> s)) Map.empty sleep"

text \<open>
  The body of the loop over the health records. \<open>s\<close> is the lookup
  \<open>sleep_by_driver.get(h["driver_id"])\<close>; where it is absent the source goes on with
  \<open>{}\<close>, so that \<open>s.get("score", 100)\<close> is 100 and \<open>s.get("score")\<close> is \<open>None\<close>.
\<close>

definition readiness_row :: "(string \<rightharpoonup> SleepRecord) \<Rightarrow> HealthRecord \<Rightarrow> ReadinessRow" where
  "readiness_row by_driver h =
     (let s = by_driver (HealthRecord.driver_id h);
          readiness_ok = (bp_systolic h < 140 \<and> bp_diastolic h < 90
                          \<and> (case s of None \<Rightarrow> 100 | Some r \<Rightarrow> score r) \<ge> 60)
      in \<lparr>datetime = HealthRecord.timestamp h,
          ReadinessRow.driver_name = HealthRecord.driver_name h,
          ReadinessRow.device_id = HealthRecord.device_id h,
          last_sleep_score = map_option score s,
          last_bp_systolic = bp_systolic h,
          last_bp_diastolic = bp_diastolic h,
          ReadinessRow.status = (if readiness_ok then ''approved'' else ''not approved'')\<rparr>)"

text \<open>
  \<open>if q:\<close> and \<open>if status:\<close> are false for \<open>None\<close> and for the empty string.
\<close>

definition driver_readiness :: "string option \<Rightarrow> string option \<Rightarrow> database \<Rightarrow> ReadinessRow list" where
  "driver_readiness = (\<lambda>q status db.
     (let health = get_documents (healthrecord db) None;
          sleep = get_documents (sleeprecord db) None;
          rows = map (readiness_row (sleep_by_driver sleep)) health;
          rows = (case q of
                    None \<Rightarrow> rows
                  | Some qs \<Rightarrow>
                      if qs = [] then rows
                      else filter (\<lambda>r. sublist (lower qs)
                                           (lower (ReadinessRow.driver_name r))) rows);
          rows = (case status of
                    None \<Rightarrow> rows
                  | Some st \<Rightarrow>
                      if st = [] then rows
                      else filter (\<lambda>r. lower (ReadinessRow.status r) = lower st) rows)
      in rows))"

subsection \<open>Event table (GET /dashboard/events)\<close>

record EventRow =
  datetime :: datetime
  driver_name :: string
  device_id :: string
  status_event :: string
  address :: "val option"

definition event_row :: "Event \<Rightarrow> EventRow" where
  "event_row e =
     \<lparr>EventRow.datetime = Event.timestamp e,
      EventRow.driver_name = Event.driver_name e,
      EventRow.device_id = Event.device_id e,
      EventRow.status_event = Event.status_event e,
      address = map_of (or_empty_dict (location e)) ''address''\<rparr>"

definition events_table :: "string option \<Rightarrow> string option \<Rightarrow> database \<Rightarrow> EventRow list" where
  "events_table = (\<lambda>q status_event db.
     (let events = get_documents (event db) None;
          rows = map event_row events;
          rows = (case q of
                    None \<Rightarrow> rows
                  | Some qs \<Rightarrow>
                      if qs = [] then rows
                      else filter (\<lambda>r. sublist (lower qs)
                                           (lower (EventRow.driver_name r))) rows);
          rows = (case status_event of
                    None \<Rightarrow> rows
                  | Some st \<Rightarrow>
                      if st = [] then rows
                      else filter (\<lambda>r. lower (EventRow.status_event r) = lower st) rows)
      in rows))"

subsection \<open>Map points (GET /dashboard/map)\<close>

record MapPoint =
  device_id :: string
  driver_name :: "string option"
  battery :: int
  event :: "string option"
  address :: "val option"
  lat :: "val option"
  lng :: "val option"

definition health_by_device :: "HealthRecord list \<Rightarrow> (string \<rightharpoonup> HealthRecord)" where
  "health_by_device health = foldl (\<lambda>m h. m(HealthRecord.device_id h \<mapsto> h)) Map.empty health"

definition latest_event_by_device :: "Event list \<Rightarrow> (string \<rightharpoonup> Event)" where
  "latest_event_by_device events = foldl (\<lambda>m e. m(Event.device_id e \<mapsto> e)) Map.empty events"

definition map_point ::
  "(string \<rightharpoonup> HealthRecord) \<Rightarrow> (string \<rightharpoonup> Event) \<Rightarrow> Device \<Rightarrow> MapPoint" where
  "map_point by_device latest d =
     (let loc = or_empty_dict (last_location d);
          h = by_device (Device.device_id d);
          ev = latest (Device.device_id d)
      in \<lparr>MapPoint.device_id = Device.device_id d,
          MapPoint.driver_name = Device.driver_name d,
          MapPoint.battery = Device.battery d,
          MapPoint.event = map_option Event.status_event ev,
          MapPoint.address = map_of loc ''address'',
          lat = map_of loc ''lat'',
          lng = map_of loc ''lng''\<rparr>)"

definition map_points :: "database \<Rightarrow> MapPoint list" where
  "map_points db =
     (let devices = get_documents (database.device db) None;
          health = get_documents (healthrecord db) None;
          events = get_documents (database.event db) None
      in map (map_point (health_by_device health) (latest_event_by_device events)) devices)"

subsection \<open>Devices (GET /devices, GET /devices/{device_id})\<close>

text \<open>A listed device: the device document with the added key \<open>no\<close>.\<close>

record DeviceRow = Device +
  no :: int

definition devices_list :: "string option \<Rightarrow> database \<Rightarrow> DeviceRow list" where
  "devices_list q db =
     (let devices = get_documents (database.device db) None;
          devices = (case q of
                       None \<Rightarrow> devices
                     | Some qs \<Rightarrow>
                         if qs = [] then devices
                         else filter (\<lambda>d. sublist (lower qs)
                                (lower (Device.device_id d @ '' ''
                                        @ or_empty_str (Device.driver_name d)))) devices)
      in map (\<lambda>(i, d). Device.extend d (DeviceRow.fields (int i))) (enumerate 1 devices))"

datatype error = HTTPException nat string

record DeviceDetail =
  device :: Device
  health :: "HealthRecord option"
  sleep :: "SleepRecord list"
  events :: "Event list"

definition device_detail :: "string \<Rightarrow> database \<Rightarrow> error + DeviceDetail" where
  "device_detail = (\<lambda>device_id db.
     (let devices = get_documents (database.device db)
                      (Some [\<lambda>d. Device.device_id d = device_id])
      in if devices = [] then Inl (HTTPException 404 ''Device not found'')
         else
           (let device = hd devices;
                health = get_documents (healthrecord db)
                           (Some [\<lambda>h. HealthRecord.device_id h = device_id]);
                health = (if health \<noteq> [] then Some (hd health) else None);
                sleep_today = get_documents (sleeprecord db)
                                (Some [\<lambda>s. SleepRecord.device_id s = device_id]);
                events = get_documents (database.event db)
                           (Some [\<lambda>e. Event.device_id e = device_id])
            in Inr \<lparr>DeviceDetail.device = device, health = health,
                    sleep = sleep_today, events = events\<rparr>)))"

definition device_sleep :: "string \<Rightarrow> string option \<Rightarrow> database \<Rightarrow> SleepRecord list" where
  "device_sleep = (\<lambda>device_id date db.
     (let filt = [\<lambda>s. SleepRecord.device_id s = device_id];
          filt = (case date of
                    None \<Rightarrow> filt
                  | Some dt \<Rightarrow> if dt = [] then filt else filt @ [\<lambda>s. SleepRecord.date s = dt])
      in get_documents (sleeprecord db) (Some filt)))"

subsection \<open>Synthetic ECG (GET /devices/{device_id}/ecg)\<close>

text \<open>
  Python floats. A finite double is the real number it denotes. An arithmetic operation
  on floats returns the exact result rounded to a double, \<open>rnd\<close>, and a float literal
  denotes the rounding of the number written; \<open>math.sin\<close> is \<open>fsin\<close>. The two are the
  parameters of the model. An \<open>int\<close> operand is converted exactly (the ints here are
  below 100), and \<open>int(x)\<close> truncates toward zero.
\<close>

record float_model =
  rnd :: "real \<Rightarrow> real"
  fsin :: "real \<Rightarrow> real"

definition py_int :: "real \<Rightarrow> int" where
  "py_int x = (if 0 \<le> x then \<lfloor>x\<rfloor> else \<lceil>x\<rceil>)"

text \<open>
  The expression \<open>50 + 30 * math.sin(i/6.0) + 10 * math.sin(i/1.3)\<close>, one rounding per
  operation, in Python's order of evaluation.
\<close>

definition wave :: "float_model \<Rightarrow> nat \<Rightarrow> real" where
  "wave fm i =
     rnd fm (rnd fm (50 + rnd fm (30 * fsin fm (rnd fm (real i / rnd fm 6.0))))
             + rnd fm (10 * fsin fm (rnd fm (real i / rnd fm 1.3))))"

record ECG =
  timestamp :: string
  samples :: "int list"

definition device_ecg :: "float_model \<Rightarrow> (datetime \<Rightarrow> string) \<Rightarrow> datetime \<Rightarrow> string \<Rightarrow> ECG" where
  "device_ecg = (\<lambda>fm isoformat now device_id.
     \<lparr>ECG.timestamp = isoformat now,
      samples = map (\<lambda>i. py_int (wave fm i)) [0..<60]\<rparr>)"

text \<open>
  What the floats are taken to satisfy: rounding is monotone, it leaves the integers up
  to \<open>2 ^ 53\<close> as they are, and \<open>math.sin\<close> stays within \<open>[-1, 1]\<close>.
\<close>

definition well_rounded :: "float_model \<Rightarrow> bool" where
  "well_rounded fm \<longleftrightarrow>
     (\<forall>x y. x \<le> y \<longrightarrow> rnd fm x \<le> rnd fm y)
     \<and> (\<forall>k::int. \<bar>k\<bar> \<le> 2 ^ 53 \<longrightarrow> rnd fm (real_of_int k) = real_of_int k)
     \<and> (\<forall>x. \<bar>fsin fm x\<bar> \<le> 1)"

text \<open>The floats without rounding error, for the examples.\<close>

definition exact_floats :: float_model where
  "exact_floats = \<lparr>rnd = (\<lambda>x. x), fsin = sin\<rparr>"

subsection \<open>Collection sizes\<close>

text \<open>
  The number of documents of each of the five seeded collections, in the order driver,
  device, healthrecord, sleeprecord, event.
\<close>

definition collection_counts :: "database \<Rightarrow> nat list" where
  "collection_counts db =
     [length (driver db), length (database.device db), length (healthrecord db),
      length (sleeprecord db), length (database.event db)]"

subsection \<open>Counting\<close>

text \<open>
  The number of documents of a sequence that satisfy a condition, counted one document
  at a time: the reading of "the number of records with ..." that the summary is
  compared with.
\<close>

fun count_where :: "('a \<Rightarrow> bool) \<Rightarrow> 'a list \<Rightarrow> nat" where
  "count_where P [] = 0"
| "count_where P (x # xs) = (if P x then 1 else 0) + count_where P xs"

subsection \<open>The device filter as the specification words it\<close>


subsection \<open>A store for the examples\<close>

text \<open>
  The seeded documents, with a third device that has no driver name, no location and no
  event, a third health record whose driver has no sleep record, a second sleep record
  of driver DRV002 dated the day before, and a second event of device DEV-1001.
\<close>

definition example_database :: database where
  "example_database =
     \<lparr>driver = [d1, d2],
      device = [dev1, dev2,
                \<lparr>Device.device_id = ''DEV-1003'', Device.driver_id = None,
                 Device.driver_name = None, battery = 100, is_online = True,
                 last_location = None\<rparr>],
      healthrecord = [hr1 0, hr2 0,
                      (hr2 0)\<lparr>HealthRecord.driver_id := ''DRV003'',
                              HealthRecord.driver_name := ''Citra Dewi'',
                              HealthRecord.device_id := ''DEV-1003''\<rparr>],
      sleeprecord = [s1 (\<lambda>t. ''2024-01-01'') 0, s2 (\<lambda>t. ''2024-01-01'') 0,
                     (s2 (\<lambda>t. ''2023-12-31'') 0)\<lparr>score := 40\<rparr>],
      event = [e1 0, e2 0, (e1 0)\<lparr>Event.status_event := ''SOS''\<rparr>]\<rparr>"

section \<open>Properties\<close>

subsection \<open>Dictionaries built by overwriting\<close>

text \<open>
  A dictionary filled by \<open>for x in xs: m[key(x)] = x\<close> holds, under each key, the last
  element of \<open>xs\<close> with that key.
\<close>

lemma foldl_update_lookup:
  "foldl (\<lambda>m x. m(key x \<mapsto> x)) m xs k =
     (if filter (\<lambda>x. key x = k) xs = [] then m k
      else Some (last (filter (\<lambda>x. key x = k) xs)))"
  by (induction xs rule: rev_induct) auto

lemma sleep_by_driver_last:
  "sleep_by_driver xs k =
     (if filter (\<lambda>s. SleepRecord.driver_id s = k) xs = [] then None
      else Some (last (filter (\<lambda>s. SleepRecord.driver_id s = k) xs)))"
  unfolding sleep_by_driver_def by (simp add: foldl_update_lookup)

lemma latest_event_by_device_last:
  "latest_event_by_device xs k =
     (if filter (\<lambda>e. Event.device_id e = k) xs = [] then None
      else Some (last (filter (\<lambda>e. Event.device_id e = k) xs)))"
  unfolding latest_event_by_device_def by (simp add: foldl_update_lookup)

lemmas example_data = example_database_def d1_def d2_def dev1_def dev2_def hr1_def hr2_def
  s1_def s2_def e1_def e2_def

subsection \<open>Seeding\<close>

lemmas seed_steps = seed_driver_def seed_device_def seed_healthrecord_def
  seed_sleeprecord_def seed_event_def create_document_def

text \<open>A store whose five collections are all non-empty is left as it is.\<close>

lemma seed_skips:
  assumes "driver db \<noteq> []" and "database.device db \<noteq> []" and "healthrecord db \<noteq> []"
    and "sleeprecord db \<noteq> []" and "database.event db \<noteq> []"
  shows "seed f t db = db"
  using assms by (simp add: seed_def seed_steps)

lemma seed_nonempty:
  "driver (seed f t db) \<noteq> []" "database.device (seed f t db) \<noteq> []"
  "healthrecord (seed f t db) \<noteq> []" "sleeprecord (seed f t db) \<noteq> []"
  "database.event (seed f t db) \<noteq> []"
  by (simp_all add: seed_def seed_steps)

lemma seed_empty:
  "seed f t empty_database =
     \<lparr>driver = [d1, d2], device = [dev1, dev2], healthrecord = [hr1 t, hr2 t],
      sleeprecord = [s1 f t, s2 f t], event = [e1 t, e2 t]\<rparr>"
  by (simp add: seed_def seed_steps empty_database_def)

text \<open>
  C3. Seeding is idempotent. From the empty store, a second \<open>seed()\<close> (at any later
  clock reading) leaves the store that the first one produced, so every collection has
  the same number of documents after two calls as after one, and each of the five
  collections driver, device, healthrecord, sleeprecord and event holds exactly 2
  documents.
\<close>

theorem seed_idempotent:
  "seed f2 t2 (seed f1 t1 empty_database) = seed f1 t1 empty_database
   \<and> collection_counts (seed f2 t2 (seed f1 t1 empty_database))
       = collection_counts (seed f1 t1 empty_database)
   \<and> collection_counts (seed f1 t1 empty_database) = [2, 2, 2, 2, 2]"
proof -
  have twice: "seed f2 t2 (seed f1 t1 empty_database) = seed f1 t1 empty_database"
    by (rule seed_skips) (rule seed_nonempty)+
  have once: "collection_counts (seed f1 t1 empty_database) = [2, 2, 2, 2, 2]"
    by (simp add: seed_empty collection_counts_def)
  from twice once show ?thesis by simp
qed

theorem seed_idempotent_witness:
  "collection_counts
     (seed (\<lambda>t. ''2024-01-02'') 86400000000 (seed (\<lambda>t. ''2024-01-01'') 0 empty_database))
     = [2, 2, 2, 2, 2]"
  using seed_idempotent [of "\<lambda>t. ''2024-01-02''" 86400000000 "\<lambda>t. ''2024-01-01''" 0]
  by simp

subsection \<open>Driver readiness\<close>

lemma driver_readiness_all:
  "driver_readiness None None db =
     map (readiness_row (sleep_by_driver (sleeprecord db))) (healthrecord db)"
  by (simp add: driver_readiness_def)

text \<open>
  C1. Without filters, \<open>readiness()\<close> returns one row per health record, in order. The
  status of the row of a health record \<open>h\<close> is "approved" exactly when
  \<open>bp_systolic h < 140\<close>, \<open>bp_diastolic h < 90\<close> and the sleep score is at least 60,
  where the sleep score is that of the last sleep record of the whole sleep collection
  whose driver_id is that of \<open>h\<close> (and the source's default 100 when there is none);
  otherwise the status is "not approved". The thresholds are the literals 140, 90 and
  60: the operation has no threshold parameter.
\<close>

theorem readiness_rows:
  "length (driver_readiness None None db) = length (healthrecord db)
   \<and> (\<forall>i < length (healthrecord db).
        (let h = healthrecord db ! i;
             r = driver_readiness None None db ! i;
             ss = filter (\<lambda>s. SleepRecord.driver_id s = HealthRecord.driver_id h)
                    (sleeprecord db)
         in ReadinessRow.status r =
              (if bp_systolic h < 140 \<and> bp_diastolic h < 90
                  \<and> (if ss = [] then 100 else score (last ss)) \<ge> 60
               then ''approved'' else ''not approved'')
            \<and> ((ReadinessRow.status r = ''approved'') =
                (bp_systolic h < 140 \<and> bp_diastolic h < 90
                 \<and> (if ss = [] then 100 else score (last ss)) \<ge> 60))))"
  by (simp add: driver_readiness_all readiness_row_def sleep_by_driver_last Let_def)

theorem readiness_rows_witness:
  "length (driver_readiness None None example_database) = 3
   \<and> ReadinessRow.status (driver_readiness None None example_database ! 1) = ''not approved''"
  using readiness_rows [of example_database, THEN conjunct1]
    readiness_rows [of example_database, THEN conjunct2, THEN spec, of 1]
  by (simp add: example_data Let_def)

text \<open>
  C9. A health record whose driver_id has no sleep record in the store is evaluated
  with the default sleep score 100: its row is "approved" exactly when
  \<open>bp_systolic < 140\<close> and \<open>bp_diastolic < 90\<close>, and the row's last_sleep_score is null.
\<close>

theorem readiness_no_sleep_record:
  assumes "i < length (healthrecord db)"
    and "\<forall>s \<in> set (sleeprecord db).
           SleepRecord.driver_id s \<noteq> HealthRecord.driver_id (healthrecord db ! i)"
  shows "last_sleep_score (driver_readiness None None db ! i) = None
         \<and> ((ReadinessRow.status (driver_readiness None None db ! i) = ''approved'') =
             (bp_systolic (healthrecord db ! i) < 140
              \<and> bp_diastolic (healthrecord db ! i) < 90))"
proof -
  have "filter (\<lambda>s. SleepRecord.driver_id s = HealthRecord.driver_id (healthrecord db ! i))
          (sleeprecord db) = []"
    using assms(2) by (simp add: filter_empty_conv)
  then show ?thesis
    using assms(1)
    by (simp add: driver_readiness_all readiness_row_def sleep_by_driver_last Let_def)
qed

theorem readiness_no_sleep_record_witness:
  "last_sleep_score (driver_readiness None None example_database ! 2) = None
   \<and> ReadinessRow.status (driver_readiness None None example_database ! 2) = ''approved''"
  using readiness_no_sleep_record [of 2 example_database]
  by (simp add: example_data)




subsection \<open>Dashboard summary\<close>

lemma length_filter_count_where: "length (filter P xs) = count_where P xs"
  by (induction xs) simp_all

lemma count_where_filter: "count_where P (filter Q xs) = count_where (\<lambda>x. Q x \<and> P x) xs"
  by (induction xs) simp_all

lemma count_where_card: "count_where P xs = card {i. i < length xs \<and> P (xs ! i)}"
  by (simp add: length_filter_count_where [symmetric] length_filter_conv_card)

text \<open>
  C2. For every store and all thresholds, \<open>summarize()\<close> returns as high_bp_count the
  number of health records with \<open>bp_systolic > bp_sys_threshold\<close> or
  \<open>bp_diastolic > bp_dia_threshold\<close>; as low_sleep_score_count and
  under_sleep_duration_count the numbers, counted independently, of the sleep records
  dated the current UTC date (as \<open>strftime("%Y-%m-%d")\<close> formats it) with
  \<open>score < sleep_score_threshold\<close> and with \<open>duration_minutes < sleep_duration_threshold\<close>;
  and as online_devices and offline_devices the numbers of devices with is_online true
  and false.
\<close>

theorem summary_counts:
  "(let r = dashboard_summary strftime_ymd now bp_sys bp_dia sl_score sl_dur db;
        today = strftime_ymd now
    in high_bp_count r =
         int (count_where (\<lambda>h. bp_systolic h > bp_sys \<or> bp_diastolic h > bp_dia)
                (healthrecord db))
       \<and> low_sleep_score_count r =
         int (count_where (\<lambda>s. date s = today \<and> score s < sl_score) (sleeprecord db))
       \<and> under_sleep_duration_count r =
         int (count_where (\<lambda>s. date s = today \<and> SleepRecord.duration_minutes s < sl_dur)
                (sleeprecord db))
       \<and> online_devices r = int (count_where (\<lambda>d. is_online d) (database.device db))
       \<and> offline_devices r = int (count_where (\<lambda>d. \<not> is_online d) (database.device db)))"
  by (simp add: dashboard_summary_def Let_def length_filter_count_where count_where_filter
        del: filter_filter)

text \<open>
  On the example store the first sleep record of the day (score 58, 320 minutes) is
  counted in both sleep counts, and the record dated the day before in neither.
\<close>

theorem summary_counts_witness:
  "high_bp_count (dashboard_summary (\<lambda>t. ''2024-01-01'') 0 140 90 60 360 example_database) = 1
   \<and> low_sleep_score_count
        (dashboard_summary (\<lambda>t. ''2024-01-01'') 0 140 90 60 360 example_database) = 1
   \<and> under_sleep_duration_count
        (dashboard_summary (\<lambda>t. ''2024-01-01'') 0 140 90 60 360 example_database) = 1
   \<and> online_devices (dashboard_summary (\<lambda>t. ''2024-01-01'') 0 140 90 60 360 example_database) = 2
   \<and> offline_devices (dashboard_summary (\<lambda>t. ''2024-01-01'') 0 140 90 60 360 example_database) = 1"
  using summary_counts [of "\<lambda>t. ''2024-01-01''" 0 140 90 60 360 example_database]
  by (simp add: Let_def example_data)

subsection \<open>Map points\<close>

lemma map_points_all:
  "map_points db =
     map (map_point (health_by_device (healthrecord db))
            (latest_event_by_device (database.event db))) (database.device db)"
  by (simp add: map_points_def)

text \<open>
  C4. \<open>map_points()\<close> returns one point per device, in device order. The event field
  of a device's point is the status_event of the last event of the event collection
  with the device's device_id, or null when there is none; its address, lat and lng are
  those entries of the device's last_location (null when the entry, or the whole
  last_location, is missing).
\<close>

theorem map_points_fields:
  "length (map_points db) = length (database.device db)
   \<and> (\<forall>i < length (database.device db).
        (let d = database.device db ! i;
             p = map_points db ! i;
             evs = filter (\<lambda>e. Event.device_id e = Device.device_id d) (database.event db)
         in MapPoint.device_id p = Device.device_id d
            \<and> MapPoint.event p =
                (if evs = [] then None else Some (Event.status_event (last evs)))
            \<and> MapPoint.address p =
                (case last_location d of None \<Rightarrow> None | Some loc \<Rightarrow> map_of loc ''address'')
            \<and> lat p = (case last_location d of None \<Rightarrow> None | Some loc \<Rightarrow> map_of loc ''lat'')
            \<and> lng p = (case last_location d of None \<Rightarrow> None | Some loc \<Rightarrow> map_of loc ''lng'')))"
  by (simp add: map_points_all map_point_def latest_event_by_device_last Let_def
        split: option.split)

theorem map_points_fields_witness:
  "MapPoint.event (map_points example_database ! 0) = Some ''SOS''
   \<and> MapPoint.address (map_points example_database ! 0) = Some (VStr ''Jakarta'')
   \<and> lat (map_points example_database ! 0) = Some (VFloat (-6.2))
   \<and> MapPoint.event (map_points example_database ! 2) = None
   \<and> lng (map_points example_database ! 2) = None"
  using map_points_fields [of example_database, THEN conjunct2, THEN spec, of 0]
    map_points_fields [of example_database, THEN conjunct2, THEN spec, of 2]
  by (simp add: example_data Let_def)

subsection \<open>Devices\<close>

lemma truncate_extend: "Device.truncate (Device.extend d x) = d"
  by (simp add: Device.truncate_def Device.extend_def)


lemma map_truncate_rows:
  "map (Device.truncate \<circ> (\<lambda>(i, d). Device.extend d (DeviceRow.fields (int i))))
     (enumerate n ds) = ds"
  by (induction ds arbitrary: n) (simp_all add: truncate_extend)






lemma find_filter_hd:
  "find P xs = (if filter P xs = [] then None else Some (hd (filter P xs)))"
  by (induction xs) auto

text \<open>
  C5. \<open>device_detail(device_id)\<close> fails with NotFound (HTTP 404) if and only if no
  device of the store has that device_id, and fails in no other way. Otherwise it
  returns the first device with that device_id, so a device whose device_id is the
  requested one, together with the first health record with that device_id (null when
  there is none), all sleep records and all events with that device_id. It is the only
  operation of the service with an error among its results.
\<close>

theorem device_detail_not_found:
  "(device_detail did db = Inl (HTTPException 404 ''Device not found''))
      = (\<forall>d \<in> set (database.device db). Device.device_id d \<noteq> did)
   \<and> (\<forall>e. device_detail did db = Inl e \<longrightarrow> e = HTTPException 404 ''Device not found'')
   \<and> ((\<exists>d \<in> set (database.device db). Device.device_id d = did) \<longrightarrow>
        (\<exists>r. device_detail did db = Inr r
           \<and> Device.device_id (DeviceDetail.device r) = did
           \<and> find (\<lambda>d. Device.device_id d = did) (database.device db)
               = Some (DeviceDetail.device r)
           \<and> DeviceDetail.health r
               = find (\<lambda>h. HealthRecord.device_id h = did) (healthrecord db)
           \<and> DeviceDetail.sleep r
               = filter (\<lambda>s. SleepRecord.device_id s = did) (sleeprecord db)
           \<and> DeviceDetail.events r
               = filter (\<lambda>e. Event.device_id e = did) (database.event db)))"
proof -
  let ?ds = "filter (\<lambda>d. Device.device_id d = did) (database.device db)"
  have hd_id: "Device.device_id (hd ?ds) = did" if "?ds \<noteq> []"
    using hd_in_set [OF that] by simp
  show ?thesis
    by (auto simp: device_detail_def Let_def filter_empty_conv find_filter_hd hd_id)
qed

theorem device_detail_not_found_witness:
  "device_detail ''DEV-9999'' example_database = Inl (HTTPException 404 ''Device not found'')
   \<and> (\<exists>r. device_detail ''DEV-1002'' example_database = Inr r
          \<and> Device.device_id (DeviceDetail.device r) = ''DEV-1002''
          \<and> DeviceDetail.health r = Some (hr2 0))"
proof -
  have nf: "device_detail ''DEV-9999'' example_database
              = Inl (HTTPException 404 ''Device not found'')"
    using device_detail_not_found [of "''DEV-9999''" example_database, THEN conjunct1]
    by (simp add: example_database_def dev1_def dev2_def)
  have known: "\<exists>d \<in> set (database.device example_database). Device.device_id d = ''DEV-1002''"
    by (simp add: example_database_def dev1_def dev2_def)
  have first: "find (\<lambda>h. HealthRecord.device_id h = ''DEV-1002'') (healthrecord example_database)
                 = Some (hr2 0)"
    by (simp add: example_database_def hr1_def) (simp add: hr2_def)
  from device_detail_not_found [of "''DEV-1002''" example_database,
      THEN conjunct2, THEN conjunct2, THEN mp, OF known]
  obtain r where "device_detail ''DEV-1002'' example_database = Inr r"
    and "Device.device_id (DeviceDetail.device r) = ''DEV-1002''"
    and "DeviceDetail.health r
           = find (\<lambda>h. HealthRecord.device_id h = ''DEV-1002'') (healthrecord example_database)"
    by blast
  with first nf show ?thesis by simp
qed

subsection \<open>Empty filter parameters\<close>

text \<open>
  C10. For \<open>readiness()\<close>, \<open>events_table()\<close> and \<open>list_devices()\<close>, a filter parameter
  passed as the empty string behaves as an omitted one, and with every filter parameter
  empty no filtering is applied: all rows are returned.
\<close>

theorem empty_filter_as_omitted:
  "driver_readiness (Some []) st db = driver_readiness None st db
   \<and> driver_readiness q (Some []) db = driver_readiness q None db
   \<and> events_table (Some []) st db = events_table None st db
   \<and> events_table q (Some []) db = events_table q None db
   \<and> devices_list (Some []) db = devices_list None db
   \<and> driver_readiness (Some []) (Some []) db
       = map (readiness_row (sleep_by_driver (sleeprecord db))) (healthrecord db)
   \<and> events_table (Some []) (Some []) db = map event_row (database.event db)
   \<and> map Device.truncate (devices_list (Some []) db) = database.device db"
  by (simp add: driver_readiness_def events_table_def devices_list_def map_truncate_rows)

theorem empty_filter_as_omitted_witness:
  "length (driver_readiness (Some []) (Some []) example_database) = 3
   \<and> length (events_table (Some []) (Some []) example_database) = 3
   \<and> length (devices_list (Some []) example_database) = 3"
proof -
  note eqs = empty_filter_as_omitted [of None example_database None]
  have "length (map Device.truncate (devices_list (Some []) example_database)) = 3"
    unfolding eqs [THEN conjunct2, THEN conjunct2, THEN conjunct2, THEN conjunct2,
        THEN conjunct2, THEN conjunct2, THEN conjunct2]
    by (simp add: example_database_def)
  moreover have "length (driver_readiness (Some []) (Some []) example_database) = 3"
    unfolding eqs [THEN conjunct2, THEN conjunct2, THEN conjunct2, THEN conjunct2,
        THEN conjunct2, THEN conjunct1]
    by (simp add: example_database_def)
  moreover have "length (events_table (Some []) (Some []) example_database) = 3"
    unfolding eqs [THEN conjunct2, THEN conjunct2, THEN conjunct2, THEN conjunct2,
        THEN conjunct2, THEN conjunct2, THEN conjunct1]
    by (simp add: example_database_def)
  ultimately show ?thesis by simp
qed

subsection \<open>Synthetic ECG\<close>

lemma py_int_nonneg: "0 \<le> x \<Longrightarrow> py_int x = \<lfloor>x\<rfloor>"
  by (simp add: py_int_def)

lemma rnd_between:
  assumes "well_rounded fm" and "real_of_int a \<le> x" and "x \<le> real_of_int b"
    and "\<bar>a\<bar> \<le> 2 ^ 53" and "\<bar>b\<bar> \<le> 2 ^ 53"
  shows "real_of_int a \<le> rnd fm x \<and> rnd fm x \<le> real_of_int b"
proof -
  from assms(1) have mono: "\<And>x y. x \<le> y \<Longrightarrow> rnd fm x \<le> rnd fm y"
    and exact: "\<And>k::int. \<bar>k\<bar> \<le> 2 ^ 53 \<Longrightarrow> rnd fm (real_of_int k) = real_of_int k"
    by (simp_all add: well_rounded_def)
  from mono [OF assms(2)] exact [OF assms(4)] mono [OF assms(3)] exact [OF assms(5)]
  show ?thesis by simp
qed

text \<open>The waveform stays between 10 and 90, so truncation and floor agree on it.\<close>

lemma wave_bounds:
  assumes "well_rounded fm"
  shows "10 \<le> wave fm i \<and> wave fm i \<le> 90"
proof -
  from assms have unit: "\<And>x. \<bar>fsin fm x\<bar> \<le> 1"
    by (simp add: well_rounded_def)
  define u where "u = fsin fm (rnd fm (real i / rnd fm 6.0))"
  define v where "v = fsin fm (rnd fm (real i / rnd fm 1.3))"
  have u: "\<bar>u\<bar> \<le> 1" and v: "\<bar>v\<bar> \<le> 1"
    by (simp_all add: u_def v_def unit)
  have a: "real_of_int (- 30) \<le> rnd fm (30 * u) \<and> rnd fm (30 * u) \<le> real_of_int 30"
    using u by (intro rnd_between [OF assms]) simp_all
  have b: "real_of_int (- 10) \<le> rnd fm (10 * v) \<and> rnd fm (10 * v) \<le> real_of_int 10"
    using v by (intro rnd_between [OF assms]) simp_all
  have c: "real_of_int 20 \<le> rnd fm (50 + rnd fm (30 * u))
           \<and> rnd fm (50 + rnd fm (30 * u)) \<le> real_of_int 80"
    using a by (intro rnd_between [OF assms]) simp_all
  have "real_of_int 10 \<le> rnd fm (rnd fm (50 + rnd fm (30 * u)) + rnd fm (10 * v))
        \<and> rnd fm (rnd fm (50 + rnd fm (30 * u)) + rnd fm (10 * v)) \<le> real_of_int 90"
    using b c by (intro rnd_between [OF assms]) simp_all
  then show ?thesis
    by (simp add: wave_def u_def v_def)
qed

lemma well_rounded_exact_floats: "well_rounded exact_floats"
  by (simp add: well_rounded_def exact_floats_def)

text \<open>
  Bounds on the sine from its Taylor polynomial of degree 3, to evaluate a sample.
\<close>

lemma sin_coeff_values:
  "sin_coeff 0 = 0" "sin_coeff (Suc 0) = 1" "sin_coeff 2 = 0" "sin_coeff 3 = - 1 / 6"
  "sin_coeff 4 = 0"
  by (simp_all add: sin_coeff_def fact_numeral)

lemma sin_cubic_bound: "\<bar>sin x - (x - x ^ 3 / 6)\<bar> \<le> \<bar>x\<bar> ^ 5 / 120" for x :: real
proof -
  have set: "{..<5::nat} = {0, 1, 2, 3, 4}" by auto
  have "(\<Sum>m<5. sin_coeff m * x ^ m) = x - x ^ 3 / 6"
    by (simp add: set sin_coeff_values)
  with Maclaurin_sin_bound [of x 5] show ?thesis
    by (simp add: fact_numeral)
qed

lemma sin_sixth: "1658 / 10000 \<le> sin (1/6 :: real) \<and> sin (1/6 :: real) \<le> 1660 / 10000"
proof -
  have "\<bar>sin (1/6 :: real) - 215 / 1296\<bar> \<le> 1 / 933120"
    using sin_cubic_bound [of "1/6"] by (simp add: power_divide)
  then show ?thesis by linarith
qed

lemma sin_ten_thirteenths:
  "6911 / 10000 \<le> sin (10/13 :: real) \<and> sin (10/13 :: real) \<le> 6957 / 10000"
proof -
  have "\<bar>sin (10/13 :: real) - 4570 / 6591\<bar> \<le> 2500 / 1113879"
    using sin_cubic_bound [of "10/13"] by (simp add: power_divide)
  then show ?thesis by linarith
qed


text \<open>
  C6. For every device_id (none is looked up), \<open>device_ecg\<close> returns exactly 60
  samples, and sample \<open>i\<close> is \<open>floor(50 + 30*sin(i/6.0) + 10*sin(i/1.3))\<close> for every
  \<open>i\<close> in 0..59: with the expression evaluated in floats, one rounding per operation,
  for every well-rounded float model, and with the real sine where the floats are
  exact. The samples are the same for every device_id and clock reading: they depend
  on the sample index alone.
\<close>

theorem device_ecg_samples:
  assumes "well_rounded fm"
  shows "length (samples (device_ecg fm isoformat now did)) = 60
   \<and> (\<forall>i < 60. samples (device_ecg fm isoformat now did) ! i =
          \<lfloor>rnd fm (rnd fm (50 + rnd fm (30 * fsin fm (rnd fm (real i / rnd fm 6.0))))
                  + rnd fm (10 * fsin fm (rnd fm (real i / rnd fm 1.3))))\<rfloor>)
   \<and> (\<forall>i < 60. samples (device_ecg exact_floats isoformat now did) ! i =
          \<lfloor>50 + 30 * sin (real i / 6.0) + 10 * sin (real i / 1.3)\<rfloor>)
   \<and> samples (device_ecg fm isoformat now did) = samples (device_ecg fm isoformat' now' did')"
proof -
  have trunc: "py_int (wave m i) = \<lfloor>wave m i\<rfloor>" if "well_rounded m" for m i
    using wave_bounds [OF that, of i] by (simp add: py_int_nonneg)
  have general: "samples (device_ecg m isoformat now did) ! i = \<lfloor>wave m i\<rfloor>"
    if "well_rounded m" and "i < 60" for m i
    using that by (simp add: device_ecg_def trunc del: upt_Suc)
  have exact: "wave exact_floats i = 50 + 30 * sin (real i / 6.0) + 10 * sin (real i / 1.3)"
    for i
    by (simp add: wave_def exact_floats_def)
  have "length (samples (device_ecg fm isoformat now did)) = 60"
    by (simp add: device_ecg_def)
  moreover have "\<forall>i < 60. samples (device_ecg fm isoformat now did) ! i =
          \<lfloor>rnd fm (rnd fm (50 + rnd fm (30 * fsin fm (rnd fm (real i / rnd fm 6.0))))
                  + rnd fm (10 * fsin fm (rnd fm (real i / rnd fm 1.3))))\<rfloor>"
    using general [OF assms] by (simp add: wave_def)
  moreover have "\<forall>i < 60. samples (device_ecg exact_floats isoformat now did) ! i =
          \<lfloor>50 + 30 * sin (real i / 6.0) + 10 * sin (real i / 1.3)\<rfloor>"
    using general [OF well_rounded_exact_floats] exact by simp
  moreover have "samples (device_ecg fm isoformat now did)
                   = samples (device_ecg fm isoformat' now' did')"
    by (simp add: device_ecg_def)
  ultimately show ?thesis by blast
qed

theorem device_ecg_samples_witness:
  "samples (device_ecg exact_floats (\<lambda>t. ''2024-01-01T00:00:00'') 0 ''DEV-9999'') ! 0 = 50
   \<and> samples (device_ecg exact_floats (\<lambda>t. ''2024-01-01T00:00:00'') 0 ''DEV-9999'') ! 1 = 61"
proof -
  note th = device_ecg_samples [OF well_rounded_exact_floats,
      of "\<lambda>t. ''2024-01-01T00:00:00''" 0 "''DEV-9999''",
      THEN conjunct2, THEN conjunct2, THEN conjunct1]
  have zero: "samples (device_ecg exact_floats (\<lambda>t. ''2024-01-01T00:00:00'') 0 ''DEV-9999'') ! 0
                = 50"
    using th [THEN spec, of 0] by simp
  have "(61::real) \<le> 50 + 30 * sin (1 / 6) + 10 * sin (10 / 13)"
    and "50 + 30 * sin (1 / 6) + 10 * sin (10 / 13) < (62::real)"
    using sin_sixth sin_ten_thirteenths by linarith+
  then have "\<lfloor>50 + 30 * sin (1 / 6 :: real) + 10 * sin (10 / 13)\<rfloor> = 61"
    by linarith
  with th [THEN spec, of 1]
  have one: "samples (device_ecg exact_floats (\<lambda>t. ''2024-01-01T00:00:00'') 0 ''DEV-9999'') ! 1
               = 61"
    by simp
  from zero one show ?thesis by simp
qed

end
